theory Spec2Isabelle
  imports Complex_Main
begin

section \<open>Model3D: a shallow embedding of spellbook/src/Geometry/Model3D.js\<close>

text \<open>
  The file defines two objects: the view \<^verbatim>\<open>Model3DView_\<close>, which owns the loaded mesh and
  forwards animation commands to it, and the model \<^verbatim>\<open>Model3D\<close>, which owns the animation
  registry and the playback flags. Every method is a function from the object's state to
  an outcome. JavaScript's private fields end in an underscore (\<^verbatim>\<open>playing_\<close>); the record
  fields below carry the same names without it. Arguments have the types of the
  documentation comments, so the assertions on \<^verbatim>\<open>typeof\<close> hold and are left out. Numbers
  are reals: a product such as \<^verbatim>\<open>seconds * 1000\<close> is the exact one, where JavaScript rounds
  it to a double. \<^verbatim>\<open>undefined\<close> is the value \<open>None\<close> of an option type.
\<close>

subsection \<open>Exceptions\<close>

text \<open>
  A method either returns, or throws and leaves the object in the state reached at the
  throw: the assignments made before the throw stay. \<open>TypeError\<close> is the language's own
  exception for a property access on \<^verbatim>\<open>null\<close> or \<^verbatim>\<open>undefined\<close> and for a call of
  \<^verbatim>\<open>undefined\<close>. The other three are the kinds under which the specification files the
  failed assertions of the file: \<open>InvalidState\<close> for 'There is no last animation to
  play.', \<open>NotFound\<close> for 'Animation does not exist.', and \<open>InvalidArgument\<close> for every
  other assertion ('name must be valid.', 'start must be >= 0.', 'modelSrc must be
  valid.' and so on).
\<close>

datatype error = InvalidState | InvalidArgument | NotFound | TypeError

datatype 's outcome = Returns 's | Throws error 's

fun state_of :: "'s outcome \<Rightarrow> 's" where
  "state_of (Returns s) = s"
| "state_of (Throws e s) = s"

fun thrown :: "'s outcome \<Rightarrow> error option" where
  "thrown (Returns s) = None"
| "thrown (Throws e s) = Some e"

text \<open>Sequencing: the statements after a call run only if the call returned.\<close>

fun and_then :: "'s outcome \<Rightarrow> ('s \<Rightarrow> 's outcome) \<Rightarrow> 's outcome" where
  "and_then (Returns s) f = f s"
| "and_then (Throws e s) f = Throws e s"

text \<open>
  Modelled from the spec: \<^verbatim>\<open>log_.assert_\<close>, the assertion helper of the library, is not
  in this file. The specification says that a failed assertion ends the call at once
  with an error, before any later statement runs.
\<close>

definition log_assert :: "bool \<Rightarrow> error \<Rightarrow> 's \<Rightarrow> 's outcome \<Rightarrow> 's outcome" where
  "log_assert condition e s rest = (if condition then rest else Throws e s)"

subsection \<open>Animation clips and the registry object\<close>

text \<open>The object literal that \<^verbatim>\<open>setAnimation\<close> stores (lines 326 to 332).\<close>

record clip =
  start :: real
  end' :: real
  duration :: real
  loop :: bool
  forward :: bool

text \<open>
  \<^verbatim>\<open>this.animations_ = {}\<close> is an ordinary object: its own properties are the registered
  clips, and it inherits the properties of \<^verbatim>\<open>Object.prototype\<close>. The operator \<^verbatim>\<open>in\<close> of
  lines 260 and 269 is true of inherited properties too, and a read
  \<^verbatim>\<open>this.animations_[name]\<close> of an inherited name yields the inherited member, a
  function with none of the fields of a clip. The list is the one of ECMAScript 5,
  section 15.2.4. Engines add the accessor \<^verbatim>\<open>__proto__\<close>, which this model leaves out.
  The read \<open>js_get\<close> is that of line 277, which runs only after the assertion of line 269
  has found the name in the object.
\<close>

definition objectPrototypeKeys :: "string list" where
  "objectPrototypeKeys =
     [''constructor'', ''toString'', ''toLocaleString'', ''valueOf'',
      ''hasOwnProperty'', ''isPrototypeOf'', ''propertyIsEnumerable'']"

definition js_in :: "string \<Rightarrow> (string \<rightharpoonup> clip) \<Rightarrow> bool" where
  "js_in name obj = (case obj name of Some c \<Rightarrow> True | None \<Rightarrow> name \<in> set objectPrototypeKeys)"

datatype animation = Clip clip | Inherited string

definition js_get :: "(string \<rightharpoonup> clip) \<Rightarrow> string \<Rightarrow> animation" where
  "js_get obj name = (case obj name of Some c \<Rightarrow> Clip c | None \<Rightarrow> Inherited name)"

text \<open>Reading a field of the value passed as \<^verbatim>\<open>animation\<close>; an inherited member has none.\<close>

fun anim_start :: "animation \<Rightarrow> real option" where
  "anim_start (Clip c) = Some (start c)"
| "anim_start (Inherited k) = None"

fun anim_end :: "animation \<Rightarrow> real option" where
  "anim_end (Clip c) = Some (end' c)"
| "anim_end (Inherited k) = None"

fun anim_duration :: "animation \<Rightarrow> real option" where
  "anim_duration (Clip c) = Some (duration c)"
| "anim_duration (Inherited k) = None"

fun anim_loop :: "animation \<Rightarrow> bool option" where
  "anim_loop (Clip c) = Some (loop c)"
| "anim_loop (Inherited k) = None"

fun anim_forward :: "animation \<Rightarrow> bool option" where
  "anim_forward (Clip c) = Some (forward c)"
| "anim_forward (Inherited k) = None"

text \<open>Truthiness of a boolean that may be \<^verbatim>\<open>undefined\<close>, and \<^verbatim>\<open><\<close> on numbers that may be.\<close>

definition truthy :: "bool option \<Rightarrow> bool" where
  "truthy b = (b = Some True)"

definition js_less :: "real option \<Rightarrow> real option \<Rightarrow> bool" where
  "js_less a b = (case a of None \<Rightarrow> False | Some x \<Rightarrow> (case b of None \<Rightarrow> False | Some y \<Rightarrow> x < y))"

subsection \<open>The mesh of the rendering library\<close>

text \<open>
  The loader's callback builds a \<^verbatim>\<open>THREE.MorphAnimMesh\<close> when the model is animated and a
  plain \<^verbatim>\<open>THREE.Mesh\<close> otherwise (lines 59 to 70). Only the former has the methods
  \<^verbatim>\<open>updateAnimation\<close>, \<^verbatim>\<open>setDirectionForward\<close>, \<^verbatim>\<open>setDirectionBackward\<close> and
  \<^verbatim>\<open>setFrameRange\<close>; \<open>morphAnim\<close> tells the two apart. The record holds the properties the
  file reads or writes. The method \<^verbatim>\<open>updateAnimation\<close> belongs to the library: the
  functions below take it as the parameter \<open>upd\<close>, from a mesh and a time step in
  milliseconds to the mesh after the step.
\<close>

record mesh =
  morphAnim :: bool
  time :: "real option"
  meshDuration :: "real option"
  directionForward :: bool
  frameRange :: "real option \<times> real option"

subsection \<open>Model3DView_\<close>

text \<open>
  \<open>modelMesh = None\<close> is \<^verbatim>\<open>null\<close> or \<^verbatim>\<open>undefined\<close>; \<open>material\<close> tells whether a material is
  held; \<open>dirtyCount\<close> counts the calls of the host's \<^verbatim>\<open>dirty()\<close>. The host's scene and
  trigger sets hold the mesh exactly while \<open>modelMesh\<close> does and are not modelled apart.
\<close>

record view =
  loaded :: bool
  pendingAnimation :: "animation option"
  modelMesh :: "mesh option"
  material :: bool
  dirtyCount :: nat

datatype format = JSON

definition unload :: "view \<Rightarrow> view" where
  "unload v = v\<lparr>modelMesh := None, material := False\<rparr>"

text \<open>
  \<^verbatim>\<open>loadJson_\<close> hands the model's source to the loader and returns; the view changes only
  when the callback runs. The functions return the requests made to the loader beside
  the view.
\<close>

definition loadJson :: "string \<Rightarrow> view \<Rightarrow> view \<times> string list" where
  "loadJson src v = (v, [src])"

definition loadModel :: "format \<Rightarrow> string \<Rightarrow> view \<Rightarrow> view \<times> string list" where
  "loadModel fmt src v =
     (let v1 = unload v in if fmt = JSON then loadJson src v1 else (v1, []))"

definition load :: "format \<Rightarrow> string \<Rightarrow> view \<Rightarrow> view \<times> string list" where
  "load fmt src v = loadModel fmt src (v\<lparr>loaded := False, pendingAnimation := None\<rparr>)"

text \<open>
  The end of the loader's callback (lines 72 to 79), for the mesh the library has built
  and the material the callback kept.
\<close>

definition loadJson_callback :: "mesh \<Rightarrow> bool \<Rightarrow> view \<Rightarrow> view" where
  "loadJson_callback m mat v = v\<lparr>modelMesh := Some m, material := mat, loaded := True\<rparr>"

definition playAnimation :: "view \<Rightarrow> animation \<Rightarrow> view outcome" where
  "playAnimation v a =
     (if \<not> loaded v then Returns (v\<lparr>pendingAnimation := Some a\<rparr>)
      else
        (case modelMesh v of
           None \<Rightarrow> Throws TypeError v
         | Some m \<Rightarrow>
             (let m1 = m\<lparr>time := Some 0, meshDuration := anim_duration a\<rparr> in
              if \<not> morphAnim m1 then Throws TypeError (v\<lparr>modelMesh := Some m1\<rparr>)
              else
                (let m2 = (if truthy (anim_forward a) then m1\<lparr>directionForward := True\<rparr>
                           else m1\<lparr>directionForward := False\<rparr>)
                 in Returns (v\<lparr>modelMesh := Some (m2\<lparr>frameRange := (anim_start a, anim_end a)\<rparr>)\<rparr>)))))"

definition updateAnimation :: "(mesh \<Rightarrow> real \<Rightarrow> mesh) \<Rightarrow> view \<Rightarrow> real \<Rightarrow> view outcome" where
  "updateAnimation upd v deltaTimeMs =
     (if \<not> loaded v then Returns v
      else
        and_then
          (case pendingAnimation v of
             None \<Rightarrow> Returns v
           | Some a \<Rightarrow> and_then (playAnimation v a) (\<lambda>v1. Returns (v1\<lparr>pendingAnimation := None\<rparr>)))
          (\<lambda>v2. case modelMesh v2 of
                   None \<Rightarrow> Throws TypeError v2
                 | Some m \<Rightarrow>
                     if morphAnim m
                     then Returns (v2\<lparr>modelMesh := Some (upd m deltaTimeMs),
                                      dirtyCount := dirtyCount v2 + 1\<rparr>)
                     else Returns v2))"

definition getLastTime :: "view \<Rightarrow> error + real option" where
  "getLastTime v =
     (if loaded v then (case modelMesh v of None \<Rightarrow> Inl TypeError | Some m \<Rightarrow> Inr (time m))
      else Inr (Some 0))"

definition setToLastFrame :: "(mesh \<Rightarrow> real \<Rightarrow> mesh) \<Rightarrow> view \<Rightarrow> view outcome" where
  "setToLastFrame upd v =
     (case modelMesh v of
        None \<Rightarrow> Throws TypeError v
      | Some m \<Rightarrow>
          if morphAnim m
          then Returns (v\<lparr>modelMesh := Some (upd (m\<lparr>time := Some 1\<rparr>) 0),
                           dirtyCount := dirtyCount v + 1\<rparr>)
          else Returns v)"

subsection \<open>Model3D\<close>

text \<open>
  \<open>trace\<close> lists what leaves the object, in program order: the events handed to the
  host's \<^verbatim>\<open>dispatch\<close> and the requests made to the loader by either view.
\<close>

datatype view_id = Primary | Stencil

datatype effect = Dispatch string | LoadRequest view_id string

record model3d =
  modelSrc :: string
  format :: format
  animated :: bool
  animations :: "string \<rightharpoonup> clip"
  animation :: string
  playing :: bool
  looping :: "bool option"
  lastTime :: "real option"
  view :: "view option"
  stencilView :: "view option"
  trace :: "effect list"

definition dispatch :: "string \<Rightarrow> model3d \<Rightarrow> model3d" where
  "dispatch ev s = s\<lparr>trace := trace s @ [Dispatch ev]\<rparr>"

text \<open>
  \<^verbatim>\<open>this.view.m(...)\<close> throws a TypeError when there is no view;
  \<^verbatim>\<open>if (this.stencilView) this.stencilView.m(...)\<close> skips the call instead.
\<close>

definition on_view :: "(view \<Rightarrow> view outcome) \<Rightarrow> model3d \<Rightarrow> model3d outcome" where
  "on_view m s =
     (case view s of
        None \<Rightarrow> Throws TypeError s
      | Some v \<Rightarrow>
          (case m v of
             Returns v1 \<Rightarrow> Returns (s\<lparr>view := Some v1\<rparr>)
           | Throws e v1 \<Rightarrow> Throws e (s\<lparr>view := Some v1\<rparr>)))"

definition on_stencilView :: "(view \<Rightarrow> view outcome) \<Rightarrow> model3d \<Rightarrow> model3d outcome" where
  "on_stencilView m s =
     (case stencilView s of
        None \<Rightarrow> Returns s
      | Some v \<Rightarrow>
          (case m v of
             Returns v1 \<Rightarrow> Returns (s\<lparr>stencilView := Some v1\<rparr>)
           | Throws e v1 \<Rightarrow> Throws e (s\<lparr>stencilView := Some v1\<rparr>)))"

text \<open>The options object of the constructor; a missing option is \<open>None\<close>.\<close>

record options =
  optModelSrc :: "string option"
  optFormat :: "string option"
  optAnimated :: "bool option"

definition initialize :: "options \<Rightarrow> error + model3d" where
  "initialize opts =
     (case optModelSrc opts of
        None \<Rightarrow> Inl InvalidArgument
      | Some src \<Rightarrow>
          if src = [] then Inl InvalidArgument
          else if optFormat opts \<noteq> None \<and> optFormat opts \<noteq> Some ''json'' then Inl InvalidArgument
          else Inr \<lparr>modelSrc = src, format = JSON,
                    animated = (case optAnimated opts of None \<Rightarrow> True | Some b \<Rightarrow> b),
                    animations = Map.empty, animation = [], playing = False,
                    looping = Some False, lastTime = None,
                    view = None, stencilView = None, trace = []\<rparr>)"

definition stop :: "model3d \<Rightarrow> model3d outcome" where
  "stop s = Returns ((if playing s then dispatch ''stop'' s else s)\<lparr>playing := False\<rparr>)"

definition play :: "model3d \<Rightarrow> string option \<Rightarrow> model3d outcome" where
  "play s opt_name =
     (case opt_name of
        None \<Rightarrow>
          log_assert (js_in (animation s) (animations s)) InvalidState s
            (Returns (s\<lparr>playing := True\<rparr>))
      | Some name \<Rightarrow>
          log_assert (name \<noteq> []) InvalidArgument s
         (log_assert (js_in name (animations s)) NotFound s
            (if animation s = name then Returns (s\<lparr>playing := True\<rparr>)
             else
               (let a = js_get (animations s) name;
                    s1 = s\<lparr>animation := name\<rparr>
                in and_then (on_view (\<lambda>v. playAnimation v a) s1) (\<lambda>s2.
                   and_then (on_stencilView (\<lambda>v. playAnimation v a) s2) (\<lambda>s3.
                     Returns ((if \<not> playing s3 then dispatch ''play'' s3 else s3)
                                \<lparr>playing := True, looping := anim_loop a, lastTime := Some 0\<rparr>)))))))"

definition setAnimation ::
    "model3d \<Rightarrow> string \<Rightarrow> real \<Rightarrow> real \<Rightarrow> real \<Rightarrow> bool option \<Rightarrow> bool option \<Rightarrow> model3d outcome" where
  "setAnimation s name start_frame end_frame seconds opt_loop opt_forward =
     log_assert (name \<noteq> []) InvalidArgument s
    (log_assert (start_frame \<ge> 0) InvalidArgument s
    (log_assert (end_frame \<ge> 0) InvalidArgument s
    (log_assert (seconds \<ge> 0) InvalidArgument s
      (Returns (s\<lparr>animations := (animations s)(name \<mapsto>
          \<lparr>start = start_frame, end' = end_frame, duration = seconds * 1000,
           loop = (case opt_loop of None \<Rightarrow> True | Some b \<Rightarrow> b),
           forward = (case opt_forward of None \<Rightarrow> True | Some b \<Rightarrow> b)\<rparr>)\<rparr>)))))"

text \<open>\<^verbatim>\<open>if (this.view) this.view.loadModel_()\<close>, and the same for the stencil view.\<close>

fun reload :: "view_id \<Rightarrow> model3d \<Rightarrow> model3d" where
  "reload Primary s =
     (case view s of
        None \<Rightarrow> s
      | Some v \<Rightarrow>
          s\<lparr>view := Some (fst (loadModel (format s) (modelSrc s) v)),
            trace := trace s @ map (LoadRequest Primary) (snd (loadModel (format s) (modelSrc s) v))\<rparr>)"
| "reload Stencil s =
     (case stencilView s of
        None \<Rightarrow> s
      | Some v \<Rightarrow>
          s\<lparr>stencilView := Some (fst (loadModel (format s) (modelSrc s) v)),
            trace := trace s @ map (LoadRequest Stencil) (snd (loadModel (format s) (modelSrc s) v))\<rparr>)"

definition setModelSrc :: "model3d \<Rightarrow> string \<Rightarrow> model3d outcome" where
  "setModelSrc s src =
     log_assert (src \<noteq> []) InvalidArgument s
       (if modelSrc s = src then Returns s
        else
          and_then (stop (s\<lparr>modelSrc := src\<rparr>)) (\<lambda>s1.
            Returns (reload Stencil (reload Primary (dispatch ''changeModelSrc'' s1)))))"

definition update :: "(mesh \<Rightarrow> real \<Rightarrow> mesh) \<Rightarrow> model3d \<Rightarrow> real \<Rightarrow> model3d outcome" where
  "update upd s deltaTime =
     (if playing s then
        (let deltaTimeMs = deltaTime * 1000 in
         and_then (on_view (\<lambda>v. updateAnimation upd v deltaTimeMs) s) (\<lambda>s1.
         and_then (on_stencilView (\<lambda>v. updateAnimation upd v deltaTimeMs) s1) (\<lambda>s2.
           if \<not> truthy (looping s2) then
             (case view s2 of
                None \<Rightarrow> Throws TypeError s2
              | Some v \<Rightarrow>
                  (case getLastTime v of
                     Inl e \<Rightarrow> Throws e s2
                   | Inr sampled \<Rightarrow>
                       if js_less sampled (lastTime s2) then
                         and_then (on_view (setToLastFrame upd) s2) (\<lambda>s3.
                         and_then (on_stencilView (setToLastFrame upd) s3) stop)
                       else Returns (s2\<lparr>lastTime := sampled\<rparr>)))
           else Returns s2)))
      else Returns s)"

subsection \<open>The host and the loader\<close>

text \<open>
  Modelled from the spec: the host framework, which is not in this file, creates the
  primary view and, when the scene has a stencil layer, a second view of the same type,
  and calls \<^verbatim>\<open>load()\<close> on each; later the loader may call a view's callback with the mesh
  it has built.
\<close>

definition fresh_view :: view where
  "fresh_view = \<lparr>loaded = False, pendingAnimation = None, modelMesh = None,
                  material = False, dirtyCount = 0\<rparr>"

definition createViews :: "bool \<Rightarrow> model3d \<Rightarrow> model3d" where
  "createViews withStencil s =
     (let s1 = s\<lparr>view := Some (fst (load (format s) (modelSrc s) fresh_view)),
                 trace := trace s @ map (LoadRequest Primary) (snd (load (format s) (modelSrc s) fresh_view))\<rparr>
      in if withStencil
         then s1\<lparr>stencilView := Some (fst (load (format s) (modelSrc s) fresh_view)),
                 trace := trace s1 @ map (LoadRequest Stencil) (snd (load (format s) (modelSrc s) fresh_view))\<rparr>
         else s1)"

definition construct :: "options \<Rightarrow> bool \<Rightarrow> error + model3d" where
  "construct opts withStencil =
     (case initialize opts of Inl e \<Rightarrow> Inl e | Inr s \<Rightarrow> Inr (createViews withStencil s))"

fun loadCompleted :: "view_id \<Rightarrow> mesh \<Rightarrow> bool \<Rightarrow> model3d \<Rightarrow> model3d" where
  "loadCompleted Primary m mat s = s\<lparr>view := map_option (loadJson_callback m mat) (view s)\<rparr>"
| "loadCompleted Stencil m mat s = s\<lparr>stencilView := map_option (loadJson_callback m mat) (stencilView s)\<rparr>"

text \<open>
  The states a model can be in: constructed by the host, then any sequence of calls of
  the public methods, of the host's per-frame \<^verbatim>\<open>update\<close> and of loader callbacks. A call
  that throws leaves the state it had reached.
\<close>

inductive reachable :: "model3d \<Rightarrow> bool" where
  r_construct: "construct opts withStencil = Inr s \<Longrightarrow> reachable s"
| r_play: "reachable s \<Longrightarrow> reachable (state_of (play s opt_name))"
| r_setAnimation:
    "reachable s \<Longrightarrow>
     reachable (state_of (setAnimation s name start_frame end_frame seconds opt_loop opt_forward))"
| r_stop: "reachable s \<Longrightarrow> reachable (state_of (stop s))"
| r_setModelSrc: "reachable s \<Longrightarrow> reachable (state_of (setModelSrc s src))"
| r_update: "reachable s \<Longrightarrow> reachable (state_of (update upd s deltaTime))"
| r_loadCompleted: "reachable s \<Longrightarrow> reachable (loadCompleted vid m mat s)"

subsection \<open>Concrete objects for the examples\<close>

definition exampleOptions :: options where
  "exampleOptions = \<lparr>optModelSrc = Some ''robot.json'', optFormat = None, optAnimated = None\<rparr>"

definition exampleModel :: "bool \<Rightarrow> model3d" where
  "exampleModel withStencil =
     \<lparr>modelSrc = ''robot.json'', format = JSON, animated = True,
      animations = Map.empty, animation = [], playing = False,
      looping = Some False, lastTime = None,
      view = Some fresh_view,
      stencilView = (if withStencil then Some fresh_view else None),
      trace = (if withStencil
               then [LoadRequest Primary ''robot.json'', LoadRequest Stencil ''robot.json'']
               else [LoadRequest Primary ''robot.json''])\<rparr>"

text \<open>
  A mesh as \<^verbatim>\<open>new THREE.MorphAnimMesh\<close> leaves it, a plain \<^verbatim>\<open>THREE.Mesh\<close>, and a clock for
  \<^verbatim>\<open>updateAnimation\<close> that advances the time and wraps around at the duration, as the
  specification says the library's does.
\<close>

definition morphAnimMesh :: mesh where
  "morphAnimMesh = \<lparr>morphAnim = True, time = Some 0, meshDuration = Some 1000,
                     directionForward = True, frameRange = (Some 0, Some 0)\<rparr>"

definition plainMesh :: mesh where
  "plainMesh = \<lparr>morphAnim = False, time = None, meshDuration = None,
                 directionForward = True, frameRange = (None, None)\<rparr>"

definition wrappingClock :: "mesh \<Rightarrow> real \<Rightarrow> mesh" where
  "wrappingClock m delta =
     (case time m of
        None \<Rightarrow> m
      | Some t \<Rightarrow>
          (case meshDuration m of
             None \<Rightarrow> m
           | Some d \<Rightarrow> m\<lparr>time := Some (if t + delta < d then t + delta else t + delta - d)\<rparr>))"

text \<open>
  Two clips are registered: \<^verbatim>\<open>setAnimation('walk', 0, 30, 2.0)\<close>, which loops, and
  \<^verbatim>\<open>setAnimation('once', 0, 10, 1, false)\<close>, which does not.
\<close>

definition exampleRegistered :: "bool \<Rightarrow> model3d" where
  "exampleRegistered withStencil =
     state_of (setAnimation
       (state_of (setAnimation (exampleModel withStencil) ''walk'' 0 30 2 None None))
       ''once'' 0 10 1 (Some False) None)"

definition examplePlaying :: model3d where
  "examplePlaying = state_of (play (exampleRegistered True) (Some ''walk''))"

text \<open>
  \<^verbatim>\<open>play('walk')\<close>, then \<^verbatim>\<open>setAnimation('walk', 0, 30, 2.0, false)\<close> while the clip plays.
\<close>

definition exampleRedefined :: model3d where
  "exampleRedefined =
     state_of (setAnimation examplePlaying ''walk'' 0 30 2 (Some False) None)"

text \<open>
  A model with a stencil view plays 'once'; the primary view's mesh arrives, the stencil
  view's has not arrived yet; one frame of 0.6 seconds has passed.
\<close>

definition exampleStencilPending :: model3d where
  "exampleStencilPending =
     state_of (update wrappingClock
       (loadCompleted Primary morphAnimMesh True
          (state_of (play (exampleRegistered True) (Some ''once''))))
       0.6)"

text \<open>The same, but the stencil view's mesh has arrived too before the frame.\<close>

definition exampleBothLoaded :: model3d where
  "exampleBothLoaded =
     state_of (update wrappingClock
       (loadCompleted Stencil morphAnimMesh True
          (loadCompleted Primary morphAnimMesh True
             (state_of (play (exampleRegistered True) (Some ''once'')))))
       0.6)"

text \<open>
  The mesh of a model without a stencil view has arrived; then
  \<^verbatim>\<open>setModelSrc('tank.json')\<close> is called, and the new mesh has not arrived yet.
\<close>

definition exampleSourceChanged :: model3d where
  "exampleSourceChanged =
     state_of (setModelSrc (loadCompleted Primary morphAnimMesh True (exampleRegistered False))
                 ''tank.json'')"

text \<open>
  As before, but 'walk' was playing when the source changed and is resumed with
  \<^verbatim>\<open>play()\<close> right after.
\<close>

definition exampleResumed :: model3d where
  "exampleResumed =
     state_of (play
       (state_of (setModelSrc
          (state_of (play (loadCompleted Primary morphAnimMesh True (exampleRegistered False))
                          (Some ''walk'')))
          ''tank.json''))
       None)"


subsection \<open>Notions used in the statements\<close>

text \<open>What a call added to the trace.\<close>

definition emitted :: "model3d \<Rightarrow> model3d \<Rightarrow> effect list" where
  "emitted s s1 = drop (length (trace s)) (trace s1)"

text \<open>The fields that say which clip is selected and whether it loops.\<close>

definition selection :: "model3d \<Rightarrow> (string \<rightharpoonup> clip) \<times> string \<times> bool option" where
  "selection s = (animations s, animation s, looping s)"

definition loop_mirrored :: "model3d \<Rightarrow> bool" where
  "loop_mirrored s =
     (case animations s (animation s) of None \<Rightarrow> True | Some c \<Rightarrow> looping s = Some (loop c))"

text \<open>
  The reachable states in which no call of \<^verbatim>\<open>play\<close> has ended in a TypeError and no call
  of \<^verbatim>\<open>setAnimation\<close> has changed, or set for the first time, the loop flag stored under
  the name selected at the time of the call.
\<close>

inductive reachable_keeping_loop :: "model3d \<Rightarrow> bool" where
  k_construct: "construct opts withStencil = Inr s \<Longrightarrow> reachable_keeping_loop s"
| k_play:
    "reachable_keeping_loop s \<Longrightarrow> thrown (play s opt_name) \<noteq> Some TypeError \<Longrightarrow>
     reachable_keeping_loop (state_of (play s opt_name))"
| k_setAnimation:
    "reachable_keeping_loop s \<Longrightarrow>
     (name = animation s \<longrightarrow>
        map_option loop (animations s name) = Some (case opt_loop of None \<Rightarrow> True | Some b \<Rightarrow> b)) \<Longrightarrow>
     reachable_keeping_loop
       (state_of (setAnimation s name start_frame end_frame seconds opt_loop opt_forward))"
| k_stop: "reachable_keeping_loop s \<Longrightarrow> reachable_keeping_loop (state_of (stop s))"
| k_setModelSrc: "reachable_keeping_loop s \<Longrightarrow> reachable_keeping_loop (state_of (setModelSrc s src))"
| k_update: "reachable_keeping_loop s \<Longrightarrow> reachable_keeping_loop (state_of (update upd s deltaTime))"
| k_loadCompleted: "reachable_keeping_loop s \<Longrightarrow> reachable_keeping_loop (loadCompleted vid m mat s)"


section \<open>Basic facts\<close>

lemmas model_defs = setAnimation_def play_def stop_def setModelSrc_def update_def log_assert_def
  js_in_def js_get_def objectPrototypeKeys_def dispatch_def on_view_def on_stencilView_def
  truthy_def js_less_def

lemmas view_defs = playAnimation_def updateAnimation_def getLastTime_def setToLastFrame_def
  loadModel_def loadJson_def unload_def loadJson_callback_def fresh_view_def

lemmas example_defs = exampleModel_def morphAnimMesh_def plainMesh_def wrappingClock_def

lemma format_JSON: "(f::format) = JSON"
  by (cases f) simp

lemma loadModel_eq: "loadModel fmt src v = (unload v, [src])"
  by (simp add: loadModel_def loadJson_def format_JSON)

lemma construct_example: "construct exampleOptions b = Inr (exampleModel b)"
  by (simp add: construct_def initialize_def exampleOptions_def exampleModel_def createViews_def
      load_def loadModel_def loadJson_def unload_def fresh_view_def Let_def)

lemma exampleRegistered_eq:
  "exampleRegistered b = (exampleModel b)\<lparr>animations :=
      [''walk'' \<mapsto> \<lparr>start = 0, end' = 30, duration = 2000, loop = True, forward = True\<rparr>,
       ''once'' \<mapsto> \<lparr>start = 0, end' = 10, duration = 1000, loop = False, forward = True\<rparr>]\<rparr>"
  by (simp add: exampleRegistered_def model_defs example_defs)

lemma examplePlaying_eq:
  "examplePlaying = (exampleRegistered True)\<lparr>animation := ''walk'', playing := True,
      looping := Some True, lastTime := Some 0,
      view := Some (fresh_view\<lparr>pendingAnimation := Some (Clip
           \<lparr>start = 0, end' = 30, duration = 2000, loop = True, forward = True\<rparr>)\<rparr>),
      stencilView := Some (fresh_view\<lparr>pendingAnimation := Some (Clip
           \<lparr>start = 0, end' = 30, duration = 2000, loop = True, forward = True\<rparr>)\<rparr>),
      trace := [LoadRequest Primary ''robot.json'', LoadRequest Stencil ''robot.json'',
                Dispatch ''play'']\<rparr>"
  by (simp add: examplePlaying_def exampleRegistered_eq model_defs view_defs example_defs Let_def)

lemma examplePlaying_returns: "play (exampleRegistered True) (Some ''walk'') = Returns examplePlaying"
  by (simp add: examplePlaying_eq)
     (simp add: exampleRegistered_eq model_defs view_defs example_defs Let_def)

lemma exampleStencilPending_eq:
  "exampleStencilPending = (exampleRegistered True)\<lparr>animation := ''once'', playing := True,
      looping := Some False, lastTime := Some 600,
      view := Some \<lparr>loaded = True, pendingAnimation = None,
         modelMesh = Some \<lparr>morphAnim = True, time = Some 600, meshDuration = Some 1000,
            directionForward = True, frameRange = (Some 0, Some 10)\<rparr>,
         material = True, dirtyCount = 1\<rparr>,
      stencilView := Some (fresh_view\<lparr>pendingAnimation := Some (Clip
           \<lparr>start = 0, end' = 10, duration = 1000, loop = False, forward = True\<rparr>)\<rparr>),
      trace := [LoadRequest Primary ''robot.json'', LoadRequest Stencil ''robot.json'',
                Dispatch ''play'']\<rparr>"
  by (simp add: exampleStencilPending_def exampleRegistered_eq model_defs view_defs example_defs Let_def)

lemma exampleSourceChanged_eq:
  "exampleSourceChanged = (exampleRegistered False)\<lparr>modelSrc := ''tank.json'',
      view := Some \<lparr>loaded = True, pendingAnimation = None, modelMesh = None,
                     material = False, dirtyCount = 0\<rparr>,
      trace := [LoadRequest Primary ''robot.json'', Dispatch ''changeModelSrc'',
                LoadRequest Primary ''tank.json'']\<rparr>"
  by (simp add: exampleSourceChanged_def exampleRegistered_eq model_defs view_defs example_defs Let_def)

lemma reachable_exampleRegistered: "reachable (exampleRegistered b)"
  unfolding exampleRegistered_def
  by (intro r_setAnimation r_construct [OF construct_example])

lemma stop_eq:
  "stop s = Returns (s\<lparr>playing := False,
                       trace := trace s @ (if playing s then [Dispatch ''stop''] else [])\<rparr>)"
  by (simp add: stop_def dispatch_def)

subsection \<open>Calls on the views\<close>

lemma playAnimation_throws: "playAnimation v a = Throws e v1 \<Longrightarrow> e = TypeError"
  by (auto simp add: playAnimation_def Let_def split: if_splits option.splits)

lemma on_view_cases:
  "(\<exists>w. on_view m s = Returns (s\<lparr>view := w\<rparr>)) \<or> (\<exists>e w. on_view m s = Throws e (s\<lparr>view := w\<rparr>))"
  by (auto simp add: on_view_def split: option.splits outcome.splits intro: exI [of _ "view s"])

lemma on_stencilView_cases:
  "(\<exists>w. on_stencilView m s = Returns (s\<lparr>stencilView := w\<rparr>))
   \<or> (\<exists>e w. on_stencilView m s = Throws e (s\<lparr>stencilView := w\<rparr>))"
  by (auto simp add: on_stencilView_def split: option.splits outcome.splits
      intro: exI [of _ "stencilView s"])

lemma on_view_playAnimation:
  "(\<exists>w. on_view (\<lambda>v. playAnimation v a) s = Returns (s\<lparr>view := w\<rparr>))
   \<or> (\<exists>w. on_view (\<lambda>v. playAnimation v a) s = Throws TypeError (s\<lparr>view := w\<rparr>))"
  by (auto simp add: on_view_def split: option.splits outcome.splits
      dest: playAnimation_throws intro: exI [of _ "view s"])

lemma on_stencilView_playAnimation:
  "(\<exists>w. on_stencilView (\<lambda>v. playAnimation v a) s = Returns (s\<lparr>stencilView := w\<rparr>))
   \<or> (\<exists>w. on_stencilView (\<lambda>v. playAnimation v a) s = Throws TypeError (s\<lparr>stencilView := w\<rparr>))"
  by (auto simp add: on_stencilView_def split: option.splits outcome.splits
      dest: playAnimation_throws intro: exI [of _ "stencilView s"])

subsection \<open>The four paths through play\<close>

lemma play_resume:
  "play s None = (if js_in (animation s) (animations s) then Returns (s\<lparr>playing := True\<rparr>)
                  else Throws InvalidState s)"
  by (simp add: play_def log_assert_def)

lemma play_rejects:
  "\<not> (name \<noteq> [] \<and> js_in name (animations s)) \<Longrightarrow>
   play s (Some name) = Throws (if name = [] then InvalidArgument else NotFound) s"
  by (auto simp add: play_def log_assert_def)

lemma play_same:
  "name \<noteq> [] \<Longrightarrow> js_in name (animations s) \<Longrightarrow> animation s = name \<Longrightarrow>
   play s (Some name) = Returns (s\<lparr>playing := True\<rparr>)"
  by (simp add: play_def log_assert_def)

text \<open>
  Selecting another animation: the call returns with every field of lines 278 to 289
  set, or a view throws and only the assignment of line 278 and the views' own changes
  stay.
\<close>

lemma play_select:
  assumes "name \<noteq> []" and "js_in name (animations s)" and "animation s \<noteq> name"
  shows "(\<exists>w1 w2. play s (Some name) =
            Returns (s\<lparr>animation := name, view := w1, stencilView := w2,
                       trace := trace s @ (if playing s then [] else [Dispatch ''play'']),
                       playing := True, looping := anim_loop (js_get (animations s) name),
                       lastTime := Some 0\<rparr>))
       \<or> (\<exists>w1 w2. play s (Some name) =
            Throws TypeError (s\<lparr>animation := name, view := w1, stencilView := w2\<rparr>))"
proof -
  let ?a = "js_get (animations s) name"
  let ?s1 = "s\<lparr>animation := name\<rparr>"
  have unfold: "play s (Some name) =
      and_then (on_view (\<lambda>v. playAnimation v ?a) ?s1) (\<lambda>s2.
      and_then (on_stencilView (\<lambda>v. playAnimation v ?a) s2) (\<lambda>s3.
        Returns ((if \<not> playing s3 then dispatch ''play'' s3 else s3)
                   \<lparr>playing := True, looping := anim_loop ?a, lastTime := Some 0\<rparr>)))"
    using assms by (simp add: play_def log_assert_def Let_def)
  from on_view_playAnimation [of ?a ?s1] show ?thesis
  proof (elim disjE exE)
    fix w assume 1: "on_view (\<lambda>v. playAnimation v ?a) ?s1 = Returns (?s1\<lparr>view := w\<rparr>)"
    from on_stencilView_playAnimation [of ?a "?s1\<lparr>view := w\<rparr>"] show ?thesis
    proof (elim disjE exE)
      fix w2 assume 2: "on_stencilView (\<lambda>v. playAnimation v ?a) (?s1\<lparr>view := w\<rparr>)
                          = Returns (?s1\<lparr>view := w, stencilView := w2\<rparr>)"
      have "play s (Some name) =
            Returns (s\<lparr>animation := name, view := w, stencilView := w2,
                       trace := trace s @ (if playing s then [] else [Dispatch ''play'']),
                       playing := True, looping := anim_loop ?a, lastTime := Some 0\<rparr>)"
        by (simp add: unfold 1 2 dispatch_def)
      then show ?thesis by blast
    next
      fix w2 assume 2: "on_stencilView (\<lambda>v. playAnimation v ?a) (?s1\<lparr>view := w\<rparr>)
                          = Throws TypeError (?s1\<lparr>view := w, stencilView := w2\<rparr>)"
      have "play s (Some name) =
            Throws TypeError (s\<lparr>animation := name, view := w, stencilView := w2\<rparr>)"
        by (simp add: unfold 1 2)
      then show ?thesis by blast
    qed
  next
    fix w assume 1: "on_view (\<lambda>v. playAnimation v ?a) ?s1 = Throws TypeError (?s1\<lparr>view := w\<rparr>)"
    have "play s (Some name) =
          Throws TypeError (s\<lparr>animation := name, view := w, stencilView := stencilView s\<rparr>)"
      by (simp add: unfold 1)
    then show ?thesis by blast
  qed
qed

lemma play_Returns_playing: "play s opt_name = Returns s1 \<Longrightarrow> playing s1"
proof (cases opt_name)
  case None
  assume "play s opt_name = Returns s1"
  with None show ?thesis by (auto simp add: play_resume split: if_splits)
next
  case (Some name)
  assume r: "play s opt_name = Returns s1"
  show ?thesis
  proof (cases "name \<noteq> [] \<and> js_in name (animations s)")
    case False
    with r Some play_rejects [of name s] show ?thesis by simp
  next
    case True
    show ?thesis
    proof (cases "animation s = name")
      case True
      with r Some \<open>name \<noteq> [] \<and> js_in name (animations s)\<close> show ?thesis
        by (auto simp add: play_same)
    next
      case False
      with play_select [of name s] True r Some show ?thesis by auto
    qed
  qed
qed

subsection \<open>Reloading\<close>

lemma reload_Primary_eq:
  "reload Primary s = (case view s of None \<Rightarrow> s
     | Some v \<Rightarrow> s\<lparr>view := Some (unload v), trace := trace s @ [LoadRequest Primary (modelSrc s)]\<rparr>)"
  by (simp add: loadModel_eq split: option.splits)

lemma reload_Stencil_eq:
  "reload Stencil s = (case stencilView s of None \<Rightarrow> s
     | Some v \<Rightarrow> s\<lparr>stencilView := Some (unload v), trace := trace s @ [LoadRequest Stencil (modelSrc s)]\<rparr>)"
  by (simp add: loadModel_eq split: option.splits)

lemma setModelSrc_changed:
  assumes "src \<noteq> []" and "modelSrc s \<noteq> src"
  shows "setModelSrc s src =
     Returns (s\<lparr>modelSrc := src, playing := False,
                view := map_option unload (view s),
                stencilView := map_option unload (stencilView s),
                trace := trace s
                    @ (if playing s then [Dispatch ''stop''] else [])
                    @ [Dispatch ''changeModelSrc'']
                    @ (case view s of None \<Rightarrow> [] | Some v \<Rightarrow> [LoadRequest Primary src])
                    @ (case stencilView s of None \<Rightarrow> [] | Some v \<Rightarrow> [LoadRequest Stencil src])\<rparr>)"
proof -
  have "setModelSrc s src = Returns (reload Stencil (reload Primary (dispatch ''changeModelSrc''
          (s\<lparr>modelSrc := src, playing := False,
             trace := trace s @ (if playing s then [Dispatch ''stop''] else [])\<rparr>))))"
    using assms by (simp add: setModelSrc_def log_assert_def stop_eq del: reload.simps)
  also have "\<dots> = Returns (s\<lparr>modelSrc := src, playing := False,
                view := map_option unload (view s),
                stencilView := map_option unload (stencilView s),
                trace := trace s
                    @ (if playing s then [Dispatch ''stop''] else [])
                    @ [Dispatch ''changeModelSrc'']
                    @ (case view s of None \<Rightarrow> [] | Some v \<Rightarrow> [LoadRequest Primary src])
                    @ (case stencilView s of None \<Rightarrow> [] | Some v \<Rightarrow> [LoadRequest Stencil src])\<rparr>)"
    unfolding reload_Primary_eq reload_Stencil_eq dispatch_def
    by (cases "view s"; cases "stencilView s") simp_all
  finally show ?thesis .
qed

lemma setModelSrc_unchanged:
  "src = [] \<or> modelSrc s = src \<Longrightarrow> state_of (setModelSrc s src) = s"
  by (auto simp add: setModelSrc_def log_assert_def)

subsection \<open>Calls that leave the selection alone\<close>

lemma and_then_keeps:
  assumes "p (state_of x) = p s" and "\<And>s1. p (state_of (f s1)) = p s1"
  shows "p (state_of (and_then x f)) = p s"
  using assms by (cases x) simp_all

lemma on_view_selection: "selection (state_of (on_view m s)) = selection s"
  using on_view_cases [of m s] by (auto simp add: selection_def)

lemma on_stencilView_selection: "selection (state_of (on_stencilView m s)) = selection s"
  using on_stencilView_cases [of m s] by (auto simp add: selection_def)

lemma stop_selection: "selection (state_of (stop s)) = selection s"
  by (simp add: stop_eq selection_def)

lemma setModelSrc_selection: "selection (state_of (setModelSrc s src)) = selection s"
proof (cases "src = [] \<or> modelSrc s = src")
  case True
  then show ?thesis by (simp add: setModelSrc_unchanged)
next
  case False
  then show ?thesis by (simp add: setModelSrc_changed selection_def)
qed

lemma update_selection: "selection (state_of (update upd s deltaTime)) = selection s"
proof (cases "playing s")
  case False
  then show ?thesis by (simp add: update_def)
next
  case True
  have tail: "selection (state_of
      (if \<not> truthy (looping s2) then
         (case view s2 of
            None \<Rightarrow> Throws TypeError s2
          | Some v \<Rightarrow>
              (case getLastTime v of
                 Inl e \<Rightarrow> Throws e s2
               | Inr sampled \<Rightarrow>
                   if js_less sampled (lastTime s2) then
                     and_then (on_view (setToLastFrame upd) s2) (\<lambda>s3.
                     and_then (on_stencilView (setToLastFrame upd) s3) stop)
                   else Returns (s2\<lparr>lastTime := sampled\<rparr>)))
       else Returns s2)) = selection s2" for s2
  proof -
    have snap: "selection (state_of (and_then (on_view (setToLastFrame upd) s2) (\<lambda>s3.
                     and_then (on_stencilView (setToLastFrame upd) s3) stop))) = selection s2"
      by (intro and_then_keeps on_view_selection on_stencilView_selection stop_selection)
    have sampled: "selection (s2\<lparr>lastTime := t\<rparr>) = selection s2" for t
      by (simp add: selection_def)
    show ?thesis
      by (simp add: snap sampled split: option.splits sum.splits)
  qed
  show ?thesis
    unfolding update_def Let_def using True
    by (simp only: if_True) (intro and_then_keeps on_view_selection on_stencilView_selection tail)
qed

lemma loadCompleted_selection: "selection (loadCompleted vid m mat s) = selection s"
  by (cases vid) (simp_all add: selection_def)

lemma construct_selection:
  "construct opts withStencil = Inr s \<Longrightarrow> selection s = (Map.empty, [], Some False)"
  by (auto simp add: construct_def initialize_def createViews_def Let_def selection_def
      split: option.splits if_splits sum.splits)

lemma loop_mirrored_selection: "selection s1 = selection s \<Longrightarrow> loop_mirrored s1 = loop_mirrored s"
  by (simp add: selection_def loop_mirrored_def split: option.splits)

lemma play_keeps_loop_mirrored:
  assumes "loop_mirrored s" and "thrown (play s opt_name) \<noteq> Some TypeError"
  shows "loop_mirrored (state_of (play s opt_name))"
proof (cases opt_name)
  case None
  with assms show ?thesis by (auto simp add: play_resume loop_mirrored_def split: option.splits)
next
  case (Some name)
  show ?thesis
  proof (cases "name \<noteq> [] \<and> js_in name (animations s)")
    case False
    with Some assms show ?thesis by (simp add: play_rejects)
  next
    case True
    show ?thesis
    proof (cases "animation s = name")
      case True
      with Some assms \<open>name \<noteq> [] \<and> js_in name (animations s)\<close> show ?thesis
        by (auto simp add: play_same loop_mirrored_def split: option.splits)
    next
      case False
      with play_select [of name s] True Some assms(2) show ?thesis
        by (auto simp add: loop_mirrored_def js_get_def split: option.splits)
    qed
  qed
qed

lemma setAnimation_keeps_loop_mirrored:
  assumes "loop_mirrored s"
    and "name = animation s \<longrightarrow>
           map_option loop (animations s name) = Some (case opt_loop of None \<Rightarrow> True | Some b \<Rightarrow> b)"
  shows "loop_mirrored (state_of (setAnimation s name start_frame end_frame seconds opt_loop opt_forward))"
  using assms
  by (auto simp add: setAnimation_def log_assert_def loop_mirrored_def split: option.splits)

lemma reachable_keeping_loop_mirrored: "reachable_keeping_loop s \<Longrightarrow> loop_mirrored s"
proof (induction rule: reachable_keeping_loop.induct)
  case (k_construct opts withStencil s)
  then show ?case by (auto dest: construct_selection simp add: selection_def loop_mirrored_def)
next
  case (k_play s opt_name)
  then show ?case by (simp add: play_keeps_loop_mirrored)
next
  case (k_setAnimation s name opt_loop start_frame end_frame seconds opt_forward)
  then show ?case by (simp add: setAnimation_keeps_loop_mirrored)
next
  case (k_stop s)
  then show ?case by (simp add: loop_mirrored_selection [OF stop_selection])
next
  case (k_setModelSrc s src)
  then show ?case by (simp add: loop_mirrored_selection [OF setModelSrc_selection])
next
  case (k_update s upd deltaTime)
  then show ?case by (simp add: loop_mirrored_selection [OF update_selection])
next
  case (k_loadCompleted s vid m mat)
  then show ?case by (simp add: loop_mirrored_selection [OF loadCompleted_selection])
qed

subsection \<open>Calls of playAnimation on a view that is not loaded\<close>


section \<open>The claims\<close>

subsection \<open>C1: the end of a clip that does not loop\<close>

text \<open>
  Claim C1 says that when a model plays a clip that does not loop and \<^verbatim>\<open>update\<close> samples a
  time of the primary view below the last one, both views are set to their last frame
  and \<^verbatim>\<open>stop\<close> clears \<open>playing\<close>. \<^verbatim>\<open>setToLastFrame_\<close> reads
  \<^verbatim>\<open>this.modelMesh_.updateAnimation\<close> without testing that the view is loaded, as
  \<^verbatim>\<open>updateAnimation_\<close> and \<^verbatim>\<open>getLastTime_\<close> do. In the state below the model has a stencil
  view whose mesh has not arrived; the clock of the primary view wraps from 600 to 200;
  the primary view is set to its last frame, the call on the stencil view throws a
  TypeError, \<^verbatim>\<open>stop\<close> is not reached, the model is still playing and no 'stop' event has
  been dispatched.
\<close>

theorem update_throws_on_pending_stencil:
  "reachable exampleStencilPending
   \<and> playing exampleStencilPending
   \<and> looping exampleStencilPending = Some False
   \<and> lastTime exampleStencilPending = Some 600
   \<and> map_option getLastTime
        (view (state_of (on_view (\<lambda>v. updateAnimation wrappingClock v 600) exampleStencilPending)))
       = Some (Inr (Some 200))
   \<and> thrown (update wrappingClock exampleStencilPending 0.6) = Some TypeError
   \<and> map_option getLastTime (view (state_of (update wrappingClock exampleStencilPending 0.6)))
       = Some (Inr (Some 1))
   \<and> playing (state_of (update wrappingClock exampleStencilPending 0.6))
   \<and> emitted exampleStencilPending (state_of (update wrappingClock exampleStencilPending 0.6)) = []"
proof -
  have "reachable exampleStencilPending"
    unfolding exampleStencilPending_def
    by (intro r_update r_loadCompleted r_play reachable_exampleRegistered)
  then show ?thesis
    by (simp add: exampleStencilPending_eq exampleRegistered_eq emitted_def
        model_defs view_defs example_defs Let_def)
qed

text \<open>
  With both meshes there the same frame ends the clip as the claim says: both views are
  at their last frame, \<open>playing\<close> is false and one 'stop' event has been dispatched.
\<close>

lemma update_stops_when_both_loaded:
  "thrown (update wrappingClock exampleBothLoaded 0.6) = None
   \<and> map_option getLastTime (view (state_of (update wrappingClock exampleBothLoaded 0.6)))
       = Some (Inr (Some 1))
   \<and> map_option getLastTime (stencilView (state_of (update wrappingClock exampleBothLoaded 0.6)))
       = Some (Inr (Some 1))
   \<and> playing (state_of (update wrappingClock exampleBothLoaded 0.6)) = False
   \<and> emitted exampleBothLoaded (state_of (update wrappingClock exampleBothLoaded 0.6))
       = [Dispatch ''stop'']"
  by (simp add: exampleBothLoaded_def exampleRegistered_eq emitted_def
      model_defs view_defs example_defs Let_def)

subsection \<open>C2: the looping flag and the selected clip\<close>

text \<open>
  Claim C2, as amended. Take the states reached from construction by calls of the public
  methods, of \<^verbatim>\<open>update\<close> and of loader callbacks, in which no call of \<^verbatim>\<open>play\<close> ended in a
  TypeError and no call of \<^verbatim>\<open>setAnimation\<close> changed, or set for the first time, the loop
  flag stored under the name selected at the time. In such a state, while the model
  plays and a clip is stored under the selected name, the looping flag is the loop flag
  of that clip.
\<close>

theorem looping_mirrors_selected_clip:
  assumes "reachable_keeping_loop s" and "playing s" and "animations s (animation s) = Some c"
  shows "looping s = Some (loop c)"
  using reachable_keeping_loop_mirrored [OF assms(1)] assms(3) by (simp add: loop_mirrored_def)

text \<open>
  The claim as stated fails: \<^verbatim>\<open>setAnimation\<close> only writes the registry (line 326), so
  redefining the clip that plays, with another loop flag, leaves \<open>looping\<close> as it was
  when \<^verbatim>\<open>play\<close> selected the clip.
\<close>

theorem looping_differs_after_redefinition:
  "reachable exampleRedefined \<and> playing exampleRedefined
   \<and> animation exampleRedefined = ''walk''
   \<and> looping exampleRedefined = Some True
   \<and> map_option loop (animations exampleRedefined ''walk'') = Some False"
proof -
  have "reachable exampleRedefined"
    unfolding exampleRedefined_def examplePlaying_def
    by (intro r_setAnimation r_play reachable_exampleRegistered)
  then show ?thesis
    by (simp add: exampleRedefined_def examplePlaying_eq setAnimation_def log_assert_def)
qed

theorem looping_mirrors_example:
  "reachable_keeping_loop examplePlaying \<and> playing examplePlaying
   \<and> animations examplePlaying (animation examplePlaying)
       = Some \<lparr>start = 0, end' = 30, duration = 2000, loop = True, forward = True\<rparr>
   \<and> looping examplePlaying = Some True"
proof -
  have r0: "reachable_keeping_loop (exampleModel True)"
    by (rule k_construct [OF construct_example])
  have r1: "reachable_keeping_loop
              (state_of (setAnimation (exampleModel True) ''walk'' 0 30 2 None None))"
    by (rule k_setAnimation [OF r0]) (simp add: exampleModel_def)
  have r2: "reachable_keeping_loop (exampleRegistered True)"
    unfolding exampleRegistered_def
    by (rule k_setAnimation [OF r1]) (simp add: setAnimation_def log_assert_def exampleModel_def)
  have r3: "reachable_keeping_loop examplePlaying"
    unfolding examplePlaying_def
    by (rule k_play [OF r2]) (simp add: examplePlaying_returns)
  have p: "playing examplePlaying"
    by (simp add: examplePlaying_eq)
  have c: "animations examplePlaying (animation examplePlaying)
             = Some \<lparr>start = 0, end' = 30, duration = 2000, loop = True, forward = True\<rparr>"
    by (simp add: examplePlaying_eq exampleRegistered_eq)
  from looping_mirrors_selected_clip [OF r3 p c] r3 p c show ?thesis by simp
qed

text \<open>
  Why calls of \<^verbatim>\<open>play\<close> that end in a TypeError are left out: the name is assigned in
  line 278, before the views are called, and the looping flag in line 288, after. Here
  'walk', which loops, plays; \<^verbatim>\<open>play('once')\<close> throws in the view; the model is left
  playing with 'once' selected and the looping flag of 'walk'.
\<close>

lemma exampleResumed_eq:
  "exampleResumed = (exampleRegistered False)\<lparr>modelSrc := ''tank.json'', animation := ''walk'',
      playing := True, looping := Some True, lastTime := Some 0,
      view := Some \<lparr>loaded = True, pendingAnimation = None, modelMesh = None,
                     material = False, dirtyCount = 0\<rparr>,
      trace := [LoadRequest Primary ''robot.json'', Dispatch ''play'', Dispatch ''stop'',
                Dispatch ''changeModelSrc'', LoadRequest Primary ''tank.json'']\<rparr>"
  by (simp add: exampleResumed_def exampleRegistered_eq model_defs view_defs example_defs Let_def)

lemma play_throw_leaves_stale_looping:
  "thrown (play exampleResumed (Some ''once'')) = Some TypeError
   \<and> playing (state_of (play exampleResumed (Some ''once'')))
   \<and> animation (state_of (play exampleResumed (Some ''once''))) = ''once''
   \<and> looping (state_of (play exampleResumed (Some ''once''))) = Some True
   \<and> map_option loop (animations (state_of (play exampleResumed (Some ''once''))) ''once'')
       = Some False"
  by (simp add: exampleResumed_eq exampleRegistered_eq model_defs view_defs example_defs Let_def)

subsection \<open>C3: the failures of play\<close>

text \<open>
  Claim C3 says that \<^verbatim>\<open>play\<close> fails in three cases only (no name and nothing selected,
  an empty name, a name that is not registered) and returns the model otherwise.
  \<^verbatim>\<open>loadModel_\<close> drops the mesh of a view and does not reset \<^verbatim>\<open>loaded\<close>, which only
  \<^verbatim>\<open>load\<close> does (line 21). After \<^verbatim>\<open>setModelSrc\<close> and until the new mesh arrives, the view is
  loaded and has no mesh, and \<^verbatim>\<open>play\<close> with a registered name throws a TypeError at line
  89, with the name already selected.
\<close>

theorem play_throws_after_source_change:
  "reachable exampleSourceChanged
   \<and> animations exampleSourceChanged ''walk''
       = Some \<lparr>start = 0, end' = 30, duration = 2000, loop = True, forward = True\<rparr>
   \<and> play exampleSourceChanged (Some ''walk'')
       = Throws TypeError (exampleSourceChanged\<lparr>animation := ''walk''\<rparr>)"
proof -
  have "reachable exampleSourceChanged"
    unfolding exampleSourceChanged_def
    by (intro r_setModelSrc r_loadCompleted reachable_exampleRegistered)
  then show ?thesis
    by (simp add: exampleSourceChanged_eq exampleRegistered_eq model_defs view_defs example_defs Let_def)
qed

subsection \<open>C4: setAnimation\<close>

text \<open>
  Claim C4. For a non-empty name and a start, an end and a duration in seconds that are
  not negative, \<^verbatim>\<open>setAnimation\<close> returns the model; afterwards the clip stored under the
  name has the given start and end, the duration times 1000, and the loop and forward
  flags given, each \<open>True\<close> when left out, whatever was stored under the name before. The
  selected animation, the playing and looping flags and the last sampled time are as
  before, and so are the views and the trace.
\<close>

theorem setAnimation_stores_clip:
  assumes "name \<noteq> []" and "start_frame \<ge> 0" and "end_frame \<ge> 0" and "seconds \<ge> 0"
  shows "\<exists>s1. setAnimation s name start_frame end_frame seconds opt_loop opt_forward = Returns s1
           \<and> animations s1 name =
               Some \<lparr>start = start_frame, end' = end_frame, duration = seconds * 1000,
                     loop = (case opt_loop of None \<Rightarrow> True | Some b \<Rightarrow> b),
                     forward = (case opt_forward of None \<Rightarrow> True | Some b \<Rightarrow> b)\<rparr>
           \<and> animation s1 = animation s \<and> playing s1 = playing s
           \<and> looping s1 = looping s \<and> lastTime s1 = lastTime s
           \<and> view s1 = view s \<and> stencilView s1 = stencilView s \<and> trace s1 = trace s"
  using assms by (simp add: setAnimation_def log_assert_def)

text \<open>
  The example of the specification: \<^verbatim>\<open>setAnimation("walk", 0, 30, 2.0)\<close> stores a clip of
  2000 milliseconds that loops and plays forward, here over a clip stored before.
\<close>

theorem setAnimation_walk_example:
  "''walk'' \<noteq> [] \<and> (0::real) \<le> 0 \<and> (0::real) \<le> 30 \<and> (0::real) \<le> 2
   \<and> map_option loop (animations exampleRedefined ''walk'') = Some False
   \<and> animations (state_of (setAnimation exampleRedefined ''walk'' 0 30 2 None None)) ''walk''
     = Some \<lparr>start = 0, end' = 30, duration = 2000, loop = True, forward = True\<rparr>
   \<and> animation (state_of (setAnimation exampleRedefined ''walk'' 0 30 2 None None)) = ''walk''
   \<and> playing (state_of (setAnimation exampleRedefined ''walk'' 0 30 2 None None))"
  using setAnimation_stores_clip [of "''walk''" 0 30 2 exampleRedefined None None]
  by (auto simp add: exampleRedefined_def examplePlaying_eq setAnimation_def log_assert_def)

subsection \<open>C5: setModelSrc\<close>

text \<open>
  Claim C5. For a non-empty path, \<^verbatim>\<open>setModelSrc\<close> returns the model unchanged when the path
  is the current source: nothing is dispatched and nothing is loaded. With another path
  it returns the model with the new source and not playing; the trace has grown by a
  'stop' event if the model was playing, then 'changeModelSrc', then one request to the
  loader for each view that exists, the primary view's first, each for the new path; and
  each view that exists has dropped its mesh and material.
\<close>

theorem setModelSrc_effect:
  assumes "src \<noteq> []"
  shows "(modelSrc s = src \<longrightarrow> setModelSrc s src = Returns s)
       \<and> (modelSrc s \<noteq> src \<longrightarrow>
            (\<exists>s1. setModelSrc s src = Returns s1
               \<and> modelSrc s1 = src
               \<and> playing s1 = False
               \<and> trace s1 = trace s
                    @ (if playing s then [Dispatch ''stop''] else [])
                    @ [Dispatch ''changeModelSrc'']
                    @ (case view s of None \<Rightarrow> [] | Some v \<Rightarrow> [LoadRequest Primary src])
                    @ (case stencilView s of None \<Rightarrow> [] | Some v \<Rightarrow> [LoadRequest Stencil src])
               \<and> view s1 = map_option unload (view s)
               \<and> stencilView s1 = map_option unload (stencilView s)
               \<and> animations s1 = animations s \<and> animation s1 = animation s
               \<and> looping s1 = looping s \<and> lastTime s1 = lastTime s))"
proof (intro conjI impI)
  assume "modelSrc s = src"
  with assms show "setModelSrc s src = Returns s"
    by (simp add: setModelSrc_def log_assert_def)
next
  assume "modelSrc s \<noteq> src"
  from setModelSrc_changed [OF assms this]
  show "\<exists>s1. setModelSrc s src = Returns s1
          \<and> modelSrc s1 = src
          \<and> playing s1 = False
          \<and> trace s1 = trace s
               @ (if playing s then [Dispatch ''stop''] else [])
               @ [Dispatch ''changeModelSrc'']
               @ (case view s of None \<Rightarrow> [] | Some v \<Rightarrow> [LoadRequest Primary src])
               @ (case stencilView s of None \<Rightarrow> [] | Some v \<Rightarrow> [LoadRequest Stencil src])
          \<and> view s1 = map_option unload (view s)
          \<and> stencilView s1 = map_option unload (stencilView s)
          \<and> animations s1 = animations s \<and> animation s1 = animation s
          \<and> looping s1 = looping s \<and> lastTime s1 = lastTime s"
    by simp
qed

theorem setModelSrc_example:
  "''robot.json'' \<noteq> [] \<and> ''tank.json'' \<noteq> [] \<and> modelSrc examplePlaying = ''robot.json''
   \<and> setModelSrc examplePlaying ''robot.json'' = Returns examplePlaying
   \<and> modelSrc (state_of (setModelSrc examplePlaying ''tank.json'')) = ''tank.json''
   \<and> emitted examplePlaying (state_of (setModelSrc examplePlaying ''tank.json''))
       = [Dispatch ''stop'', Dispatch ''changeModelSrc'',
          LoadRequest Primary ''tank.json'', LoadRequest Stencil ''tank.json'']"
  using setModelSrc_effect [of "''robot.json''" examplePlaying]
    setModelSrc_effect [of "''tank.json''" examplePlaying]
  by (auto simp add: emitted_def examplePlaying_eq exampleRegistered_eq example_defs)

subsection \<open>C6: play twice with the same name\<close>

text \<open>
  Claim C6. For a registered name (a non-empty name with a clip stored under it), a
  second \<^verbatim>\<open>play(name)\<close> right after the first returns the state the first call left, with
  \<open>playing\<close> set: it dispatches nothing, leaves the last sampled time alone and passes
  nothing to the views. This holds also when the first call threw in a view.
\<close>

theorem play_twice_same_name:
  assumes "animations s name \<noteq> None" and "name \<noteq> []"
  shows "play (state_of (play s (Some name))) (Some name)
           = Returns ((state_of (play s (Some name)))\<lparr>playing := True\<rparr>)"
proof -
  from assms have j: "js_in name (animations s)" by (auto simp add: js_in_def)
  show ?thesis
  proof (cases "animation s = name")
    case True
    with assms j show ?thesis by (simp add: play_same)
  next
    case False
    with play_select [of name s] assms j show ?thesis
      by (auto simp add: play_same)
  qed
qed

theorem play_twice_example:
  "animations (exampleRegistered True) ''walk'' \<noteq> None \<and> ''walk'' \<noteq> []
   \<and> play (exampleRegistered True) (Some ''walk'') = Returns examplePlaying
   \<and> play examplePlaying (Some ''walk'') = Returns examplePlaying"
  using play_twice_same_name [of "exampleRegistered True" "''walk''"]
  by (simp add: examplePlaying_returns) (simp add: examplePlaying_eq exampleRegistered_eq)

subsection \<open>C7: stop\<close>

text \<open>
  Claim C7. \<^verbatim>\<open>stop\<close> returns the model with \<open>playing\<close> false; it has dispatched one 'stop'
  event if the model was playing and nothing otherwise, and has changed nothing else.
  Hence after a call of \<^verbatim>\<open>play\<close> that returned, \<^verbatim>\<open>stop\<close> dispatches exactly one 'stop'
  event, and a second \<^verbatim>\<open>stop\<close> right after dispatches none: two calls in a row dispatch
  one event if the model was playing and none otherwise.
\<close>

theorem stop_emits_iff_playing:
  "stop s = Returns (s\<lparr>playing := False,
                       trace := trace s @ (if playing s then [Dispatch ''stop''] else [])\<rparr>)
   \<and> (\<forall>s0 opt_name. play s0 opt_name = Returns s \<longrightarrow>
         emitted s (state_of (stop s)) = [Dispatch ''stop'']
       \<and> emitted s (state_of (stop (state_of (stop s)))) = [Dispatch ''stop''])
   \<and> emitted s (state_of (stop (state_of (stop s))))
       = (if playing s then [Dispatch ''stop''] else [])"
  by (auto simp add: stop_eq emitted_def dest: play_Returns_playing)

theorem stop_example:
  "play (exampleRegistered True) (Some ''walk'') = Returns examplePlaying
   \<and> emitted examplePlaying (state_of (stop examplePlaying)) = [Dispatch ''stop'']
   \<and> emitted examplePlaying (state_of (stop (state_of (stop examplePlaying)))) = [Dispatch ''stop'']
   \<and> playing (state_of (stop examplePlaying)) = False"
proof -
  have p: "playing examplePlaying" by (simp add: examplePlaying_eq)
  from stop_emits_iff_playing [of examplePlaying] examplePlaying_returns p show ?thesis
    by (auto simp add: stop_eq)
qed

subsection \<open>C8: the selected name and the registry\<close>

text \<open>
  Claim C8 says that the selected name is empty or a key of the registry. The assertion
  of line 269 tests \<^verbatim>\<open>opt_name in this.animations_\<close>, which is true of the names inherited
  from \<^verbatim>\<open>Object.prototype\<close>. On a new model \<^verbatim>\<open>play('toString')\<close> returns: 'toString' is
  selected, no clip is stored under it, the model is playing and the looping flag is
  \<^verbatim>\<open>undefined\<close>.
\<close>

theorem play_selects_inherited_name:
  "reachable (state_of (play (exampleModel False) (Some ''toString'')))
   \<and> thrown (play (exampleModel False) (Some ''toString'')) = None
   \<and> animation (state_of (play (exampleModel False) (Some ''toString''))) = ''toString''
   \<and> animations (state_of (play (exampleModel False) (Some ''toString''))) ''toString'' = None
   \<and> playing (state_of (play (exampleModel False) (Some ''toString'')))
   \<and> looping (state_of (play (exampleModel False) (Some ''toString''))) = None"
proof -
  have "reachable (state_of (play (exampleModel False) (Some ''toString'')))"
    by (intro r_play r_construct [OF construct_example])
  then show ?thesis
    by (simp add: model_defs view_defs example_defs Let_def)
qed

subsection \<open>C9: when play dispatches\<close>

text \<open>
  Claim C9. If a call of \<^verbatim>\<open>play\<close> dispatches a 'play' event, then it was given a name
  other than the selected one while the model was not playing. A call without a name,
  or with the selected name, adds nothing to the trace, also when it turns \<open>playing\<close>
  from false to true.
\<close>

theorem play_event_only_on_selection:
  "(Dispatch ''play'' \<in> set (emitted s (state_of (play s opt_name))) \<longrightarrow>
      (\<exists>name. opt_name = Some name \<and> name \<noteq> animation s \<and> \<not> playing s))
   \<and> (opt_name = None \<or> opt_name = Some (animation s) \<longrightarrow>
        emitted s (state_of (play s opt_name)) = [])"
proof (cases opt_name)
  case None
  then show ?thesis by (simp add: play_resume emitted_def)
next
  case (Some name)
  show ?thesis
  proof (cases "name \<noteq> [] \<and> js_in name (animations s)")
    case False
    then have "state_of (play s (Some name)) = s" by (simp add: play_rejects)
    then show ?thesis using Some by (auto simp add: emitted_def)
  next
    case True
    show ?thesis
    proof (cases "animation s = name")
      case True
      with Some \<open>name \<noteq> [] \<and> js_in name (animations s)\<close> show ?thesis
        by (auto simp add: play_same emitted_def)
    next
      case False
      with play_select [of name s] True Some show ?thesis by (auto simp add: emitted_def)
    qed
  qed
qed

text \<open>
  Selecting 'walk' on a model that is not playing dispatches the event; resuming after
  \<^verbatim>\<open>stop\<close>, without a name or with the same name, turns \<open>playing\<close> on and dispatches
  nothing.
\<close>

theorem play_event_example:
  "emitted (exampleRegistered True) (state_of (play (exampleRegistered True) (Some ''walk'')))
     = [Dispatch ''play'']
   \<and> playing (state_of (stop examplePlaying)) = False
   \<and> playing (state_of (play (state_of (stop examplePlaying)) None))
   \<and> emitted (state_of (stop examplePlaying)) (state_of (play (state_of (stop examplePlaying)) None)) = []
   \<and> playing (state_of (play (state_of (stop examplePlaying)) (Some ''walk'')))
   \<and> emitted (state_of (stop examplePlaying))
        (state_of (play (state_of (stop examplePlaying)) (Some ''walk''))) = []"
  using play_event_only_on_selection [of "state_of (stop examplePlaying)" None]
    play_event_only_on_selection [of "state_of (stop examplePlaying)" "Some ''walk''"]
  by (simp add: examplePlaying_returns)
     (simp add: stop_eq play_resume play_same js_in_def emitted_def examplePlaying_eq
        exampleRegistered_eq example_defs)

subsection \<open>C10: the pending animation of a view\<close>




end
